theory Spec2Isabelle
  imports Main
begin

section \<open>The realtime audio bridge of \<open>src/index.js\<close>\<close>

text \<open>
  The handler registered for \<open>/media-stream\<close> owns two sockets: \<open>connection\<close>, the
  telephony leg, and \<open>openAiWs\<close>, the speech-AI leg. Five closure variables hold the
  session; the callbacks \<open>openAiWs.on("message")\<close>, \<open>connection.on("message")\<close>,
  \<open>connection.on("close")\<close>, \<open>openAiWs.on("close")\<close> and \<open>openAiWs.on("error")\<close> read and
  write them. Node runs one callback at a time, so a callback is a function from the
  session to the new session and the list of socket operations it performed, in order.

  A timestamp that a media frame carries is an integer (milliseconds), as the
  media-stream protocol of the specification types it; a frame may also carry none, or
  \<open>null\<close>, and line 231 stores what it finds. \<open>send\<close> on either socket does not throw inside a message
  callback (the \<open>ws\<close> library throws only while a socket is still connecting), so the
  \<open>try\<close> blocks are left only by a text that fails to parse or lacks the object a
  field is read from. Console output and the session configuration sent by the timer of
  line 148 are not part of the model.
\<close>

subsection \<open>Session variables (lines 122-126)\<close>

text \<open>
  The values the two timing variables can hold: \<open>undefined\<close> (the \<open>timestamp\<close> field
  of a media frame that has none), \<open>null\<close>, or a number of milliseconds.
\<close>

datatype js_time = Undefined | Null | Millis int

record session =
  streamSid :: "string option"
  latestMediaTimestamp :: js_time
  lastAssistantItem :: "string option"
  markQueue :: "string list"
  responseStartTimestampTwilio :: js_time

definition initial_session :: session where
  "initial_session =
     \<lparr>streamSid = None, latestMediaTimestamp = Millis 0, lastAssistantItem = None,
      markQueue = [], responseStartTimestampTwilio = Null\<rparr>"

subsection \<open>JavaScript truthiness of the values the handlers test\<close>

text \<open>
  \<open>if (x)\<close> on a value that is \<open>null\<close>/\<open>undefined\<close> or a string is true exactly for a
  non-empty string; on \<open>undefined\<close>, \<open>null\<close> or a number it is true exactly for a
  non-zero number. \<open>x != null\<close> is false for \<open>null\<close> and for \<open>undefined\<close> and true for
  every number.
\<close>

fun truthy_str :: "string option \<Rightarrow> bool" where
  "truthy_str None = False"
| "truthy_str (Some v) = (v \<noteq> [])"

fun truthy_num :: "js_time \<Rightarrow> bool" where
  "truthy_num Undefined = False"
| "truthy_num Null = False"
| "truthy_num (Millis n) = (n \<noteq> 0)"

fun not_null :: "js_time \<Rightarrow> bool" where
  "not_null Undefined = False"
| "not_null Null = False"
| "not_null (Millis n) = True"

text \<open>
  \<open>x - y\<close> for a number \<open>y\<close>: \<open>null\<close> counts as 0, and \<open>undefined\<close> gives \<open>NaN\<close>, here
  \<open>None\<close>. \<open>x <= y\<close> converts the same way and is false when either side is \<open>NaN\<close>.
\<close>

fun to_number :: "js_time \<Rightarrow> int option" where
  "to_number Undefined = None"
| "to_number Null = Some 0"
| "to_number (Millis n) = Some n"

definition js_minus :: "js_time \<Rightarrow> int \<Rightarrow> int option" where
  "js_minus x y = map_option (\<lambda>n. n - y) (to_number x)"

definition js_le :: "js_time \<Rightarrow> js_time \<Rightarrow> bool" where
  "js_le x y =
     (case to_number x of
        None \<Rightarrow> False
      | Some m \<Rightarrow> (case to_number y of None \<Rightarrow> False | Some n \<Rightarrow> m \<le> n))"

subsection \<open>Frames and socket operations\<close>

text \<open>\<open>WebSocket.readyState\<close> of the \<open>ws\<close> library, read at lines 232 and 253.\<close>

datatype readyState = CONNECTING | OPEN | CLOSING | CLOSED

text \<open>
  Frames written to the telephony leg: \<open>{event:"media", streamSid, media:{payload}}\<close>,
  \<open>{event:"mark", streamSid, mark:{name}}\<close> and \<open>{event:"clear", streamSid}\<close>.
\<close>

datatype twilio_frame =
    MediaFrame "string option" string
  | MarkFrame "string option" string
  | ClearFrame "string option"

fun frame_sid :: "twilio_frame \<Rightarrow> string option" where
  "frame_sid (MediaFrame sid payload) = sid"
| "frame_sid (MarkFrame sid name) = sid"
| "frame_sid (ClearFrame sid) = sid"

text \<open>
  Frames written to the speech-AI leg by the message handlers:
  \<open>{type:"input_audio_buffer.append", audio}\<close> and
  \<open>{type:"conversation.item.truncate", item_id, content_index, audio_end_ms}\<close>.
  \<open>audio_end_ms\<close> is \<open>None\<close> when the subtraction gave \<open>NaN\<close>, which \<open>JSON.stringify\<close>
  writes as \<open>null\<close>.
\<close>

datatype openai_frame =
    AudioAppend string
  | Truncate string nat "int option"

text \<open>
  What a callback can do to a socket: send a frame or close it. The source calls
  \<open>connection.send\<close>, \<open>openAiWs.send\<close> and \<open>openAiWs.close\<close>; it has no call of
  \<open>connection.close\<close>.
\<close>

datatype action =
    ConnectionSend twilio_frame
  | OpenAiSend openai_frame
  | OpenAiWsClose
  | ConnectionClose

fun telephony_frames :: "action list \<Rightarrow> twilio_frame list" where
  "telephony_frames [] = []"
| "telephony_frames (ConnectionSend f # as) = f # telephony_frames as"
| "telephony_frames (a # as) = telephony_frames as"

fun openai_frames :: "action list \<Rightarrow> openai_frame list" where
  "openai_frames [] = []"
| "openai_frames (OpenAiSend f # as) = f # openai_frames as"
| "openai_frames (a # as) = openai_frames as"

subsection \<open>Inbound messages\<close>

text \<open>
  A telephony message after \<open>JSON.parse\<close>, by its \<open>event\<close> tag: \<open>start\<close> with
  \<open>start.streamSid\<close>, \<open>media\<close> with \<open>media.timestamp\<close> and \<open>media.payload\<close>, \<open>mark\<close>, any
  other tag. The timestamp of a \<open>media\<close> message is \<open>Undefined\<close> when the \<open>media\<close> object
  has no such field: reading it does not throw. \<open>TwilioUnparsable\<close> is a text on which
  \<open>JSON.parse\<close> or a field access throws (a \<open>media\<close> message without a \<open>media\<close> object,
  a \<open>start\<close> message without a \<open>start\<close> object): the \<open>catch\<close> of line 247 logs it.
\<close>

datatype twilio_msg =
    Start string
  | Media js_time string
  | Mark
  | OtherEvent
  | TwilioUnparsable

text \<open>
  A speech-AI message after \<open>JSON.parse\<close>, by its \<open>type\<close> tag:
  \<open>response.audio.delta\<close> with its optional fields \<open>delta\<close> and \<open>item_id\<close>,
  \<open>input_audio_buffer.speech_started\<close>, any other tag, and a text that does not parse.
\<close>

datatype openai_msg =
    AudioDelta "string option" "string option"
  | SpeechStarted
  | OtherType
  | OpenAiUnparsable

subsection \<open>\<open>openAiWs.on("message")\<close> (lines 151-218)\<close>

text \<open>The \<open>response.audio.delta\<close> branch, lines 160-189.\<close>

definition relay_delta :: "session \<Rightarrow> string option \<Rightarrow> string option \<Rightarrow> session \<times> action list" where
  "relay_delta s delta item_id =
     (case delta of
        None \<Rightarrow> (s, [])
      | Some payload \<Rightarrow>
          if payload = [] then (s, [])
          else
            let audioDelta = ConnectionSend (MediaFrame (streamSid s) payload);
                s1 = (if \<not> truthy_num (responseStartTimestampTwilio s)
                      then s\<lparr>responseStartTimestampTwilio := latestMediaTimestamp s\<rparr>
                      else s);
                s2 = (if truthy_str item_id then s1\<lparr>lastAssistantItem := item_id\<rparr> else s1)
            in if truthy_str (streamSid s2)
               then (s2\<lparr>markQueue := markQueue s2 @ [''responsePart'']\<rparr>,
                     [audioDelta, ConnectionSend (MarkFrame (streamSid s2) ''responsePart'')])
               else (s2, [audioDelta]))"

text \<open>The \<open>input_audio_buffer.speech_started\<close> branch, lines 192-214.\<close>

definition truncate_on_speech :: "session \<Rightarrow> session \<times> action list" where
  "truncate_on_speech s =
     (if markQueue s = [] then (s, [])
      else case responseStartTimestampTwilio s of
        Undefined \<Rightarrow> (s, [])
      | Null \<Rightarrow> (s, [])
      | Millis started \<Rightarrow>
            let elapsed = js_minus (latestMediaTimestamp s) started in
            ((s\<lparr>markQueue := [], lastAssistantItem := None,
                 responseStartTimestampTwilio := Null\<rparr>),
             (case lastAssistantItem s of
                None \<Rightarrow> []
              | Some item \<Rightarrow>
                  if item = [] then [] else [OpenAiSend (Truncate item 0 elapsed)])
             @ [ConnectionSend (ClearFrame (streamSid s))]))"

fun openAiWs_on_message :: "session \<Rightarrow> openai_msg \<Rightarrow> session \<times> action list" where
  "openAiWs_on_message s (AudioDelta delta item_id) = relay_delta s delta item_id"
| "openAiWs_on_message s SpeechStarted = truncate_on_speech s"
| "openAiWs_on_message s OtherType = (s, [])"
| "openAiWs_on_message s OpenAiUnparsable = (s, [])"

subsection \<open>\<open>connection.on("message")\<close> (lines 220-250)\<close>

text \<open>
  The first argument is \<open>openAiWs.readyState\<close> at the moment the callback runs; the
  \<open>media\<close> case reads it before forwarding the payload.
\<close>

fun connection_on_message :: "readyState \<Rightarrow> session \<Rightarrow> twilio_msg \<Rightarrow> session \<times> action list" where
  "connection_on_message rs s (Start sid) =
     (s\<lparr>streamSid := Some sid, responseStartTimestampTwilio := Null,
        latestMediaTimestamp := Millis 0\<rparr>, [])"
| "connection_on_message rs s (Media timestamp payload) =
     (s\<lparr>latestMediaTimestamp := timestamp\<rparr>,
      if rs = OPEN then [OpenAiSend (AudioAppend payload)] else [])"
| "connection_on_message rs s Mark =
     (if markQueue s \<noteq> [] then s\<lparr>markQueue := tl (markQueue s)\<rparr> else s, [])"
| "connection_on_message rs s OtherEvent = (s, [])"
| "connection_on_message rs s TwilioUnparsable = (s, [])"

subsection \<open>Close and error callbacks (lines 252-263)\<close>

definition connection_on_close :: "readyState \<Rightarrow> action list" where
  "connection_on_close rs = (if rs = OPEN then [OpenAiWsClose] else [])"

definition openAiWs_on_close :: "action list" where
  "openAiWs_on_close = []"

definition openAiWs_on_error :: "action list" where
  "openAiWs_on_error = []"

subsection \<open>Events of one session and runs\<close>

text \<open>
  An event is one callback invocation. Telephony events carry the \<open>readyState\<close> of
  \<open>openAiWs\<close> that the callback observes.
\<close>

datatype event =
    ConnectionMessage readyState twilio_msg
  | OpenAiMessage openai_msg
  | ConnectionClosed readyState
  | OpenAiClosed
  | OpenAiError

fun step :: "session \<Rightarrow> event \<Rightarrow> session \<times> action list" where
  "step s (ConnectionMessage rs m) = connection_on_message rs s m"
| "step s (OpenAiMessage m) = openAiWs_on_message s m"
| "step s (ConnectionClosed rs) = (s, connection_on_close rs)"
| "step s OpenAiClosed = (s, openAiWs_on_close)"
| "step s OpenAiError = (s, openAiWs_on_error)"

text \<open>The session after a sequence of events, and everything sent while handling it.\<close>

fun exec :: "session \<Rightarrow> event list \<Rightarrow> session" where
  "exec s [] = s"
| "exec s (e # es) = exec (fst (step s e)) es"

fun sent :: "session \<Rightarrow> event list \<Rightarrow> action list" where
  "sent s [] = []"
| "sent s (e # es) = snd (step s e) @ sent (fst (step s e)) es"

subsection \<open>Vocabulary of the statements\<close>

text \<open>Recognisers for the kinds of event a statement quantifies over.\<close>

fun is_mark :: "event \<Rightarrow> bool" where
  "is_mark (ConnectionMessage rs Mark) = True"
| "is_mark e = False"

fun is_start :: "event \<Rightarrow> bool" where
  "is_start (ConnectionMessage rs (Start sid)) = True"
| "is_start e = False"

text \<open>
  A telephony \<open>media\<close> event from the \<open>readyState\<close> it observes, its integer timestamp
  and its payload.
\<close>

fun media_event :: "readyState \<times> int \<times> string \<Rightarrow> event" where
  "media_event (rs, timestamp, payload) =
     ConnectionMessage rs (Media (Millis timestamp) payload)"

text \<open>The value of \<open>latestMediaTimestamp\<close> after each event of a run.\<close>

fun clock_trace :: "session \<Rightarrow> event list \<Rightarrow> js_time list" where
  "clock_trace s [] = []"
| "clock_trace s (e # es) =
     latestMediaTimestamp (fst (step s e)) # clock_trace (fst (step s e)) es"

text \<open>
  The pairing of the specification's data model: the start timestamp is set exactly
  when the assistant item is. A timestamp is set when it passes the test \<open>!= null\<close> of
  line 193.
\<close>

definition paired :: "session \<Rightarrow> bool" where
  "paired s = (not_null (responseStartTimestampTwilio s) = (lastAssistantItem s \<noteq> None))"

text \<open>
  The events that separate the two variables of a session. A telephony \<open>start\<close> does
  when an assistant item is recorded: it clears the timestamp and keeps the item. A
  delta with audio does when it stores the clock (the start timestamp is \<open>undefined\<close>,
  \<open>null\<close> or 0) and the stored clock is set while no item is recorded after the delta,
  or is not set while one is.
\<close>

fun separates :: "session \<Rightarrow> event \<Rightarrow> bool" where
  "separates s (ConnectionMessage rs (Start sid)) = (lastAssistantItem s \<noteq> None)"
| "separates s (OpenAiMessage (AudioDelta delta item_id)) =
     (truthy_str delta \<and> \<not> truthy_num (responseStartTimestampTwilio s)
      \<and> not_null (latestMediaTimestamp s)
          \<noteq> (truthy_str item_id \<or> lastAssistantItem s \<noteq> None))"
| "separates s e = False"

text \<open>A run none of whose events separates the variables of the session it finds.\<close>

fun unseparated :: "session \<Rightarrow> event list \<Rightarrow> bool" where
  "unseparated s [] = True"
| "unseparated s (e # es) = (\<not> separates s e \<and> unseparated (fst (step s e)) es)"

text \<open>
  The session of the specification's scenario C just before the caller speaks: stream
  \<open>SS1\<close>, one delta of item \<open>it1\<close> relayed at 500 ms, the clock at 1200 ms.
\<close>

definition scenario_c :: session where
  "scenario_c =
     \<lparr>streamSid = Some ''SS1'', latestMediaTimestamp = Millis 1200,
      lastAssistantItem = Some ''it1'', markQueue = [''responsePart''],
      responseStartTimestampTwilio = Millis 500\<rparr>"

section \<open>Runs\<close>

lemma exec_append: "exec s (es @ fs) = exec (exec s es) fs"
  by (induction es arbitrary: s) simp_all

lemma telephony_frames_append:
  "telephony_frames (as @ bs) = telephony_frames as @ telephony_frames bs"
  by (induction as rule: telephony_frames.induct) simp_all

section \<open>Barge-in: the speech-started event\<close>

text \<open>
  C1. A speech-started event that finds \<open>markQueue\<close> non-empty and
  \<open>responseStartTimestampTwilio\<close> set computes
  \<open>elapsed = latestMediaTimestamp - responseStartTimestampTwilio\<close>; if \<open>lastAssistantItem\<close>
  is set it sends \<open>conversation.item.truncate\<close> for that item with \<open>content_index\<close> 0 and
  \<open>audio_end_ms = elapsed\<close> to the speech-AI leg; it then sends \<open>clear\<close> to the telephony
  leg; and it leaves \<open>markQueue\<close> empty and \<open>lastAssistantItem\<close> and
  \<open>responseStartTimestampTwilio\<close> null, the other variables unchanged. With a number
  \<open>now\<close> on the clock, \<open>elapsed\<close> is the integer \<open>now - started\<close>.
\<close>

theorem barge_in:
  assumes "markQueue s \<noteq> []" and "responseStartTimestampTwilio s = Millis started"
  shows "fst (step s (OpenAiMessage SpeechStarted)) =
           s\<lparr>markQueue := [], lastAssistantItem := None, responseStartTimestampTwilio := Null\<rparr>
       \<and> (truthy_str (lastAssistantItem s) \<longrightarrow>
            (\<exists>item. lastAssistantItem s = Some item \<and>
              snd (step s (OpenAiMessage SpeechStarted)) =
               [OpenAiSend (Truncate item 0 (js_minus (latestMediaTimestamp s) started)),
                ConnectionSend (ClearFrame (streamSid s))]))
       \<and> (\<not> truthy_str (lastAssistantItem s) \<longrightarrow>
            snd (step s (OpenAiMessage SpeechStarted)) =
              [ConnectionSend (ClearFrame (streamSid s))])
       \<and> (latestMediaTimestamp s = Millis now \<longrightarrow>
            js_minus (latestMediaTimestamp s) started = Some (now - started))"
  using assms
  by (cases "lastAssistantItem s") (simp_all add: truncate_on_speech_def js_minus_def)

text \<open>
  With the start timestamp 500 and the clock at 1200 the truncate frame carries
  \<open>audio_end_ms = 700\<close>.
\<close>

theorem barge_in_witness:
  "markQueue scenario_c \<noteq> [] \<and> responseStartTimestampTwilio scenario_c = Millis 500
   \<and> truthy_str (lastAssistantItem scenario_c)
   \<and> latestMediaTimestamp scenario_c = Millis 1200
   \<and> step scenario_c (OpenAiMessage SpeechStarted) =
       (\<lparr>streamSid = Some ''SS1'', latestMediaTimestamp = Millis 1200,
         lastAssistantItem = None, markQueue = [], responseStartTimestampTwilio = Null\<rparr>,
        [OpenAiSend (Truncate ''it1'' 0 (Some 700)),
         ConnectionSend (ClearFrame (Some ''SS1''))])"
proof -
  have q: "markQueue scenario_c \<noteq> []"
    and r: "responseStartTimestampTwilio scenario_c = Millis 500"
    by (simp_all add: scenario_c_def)
  show ?thesis
    using barge_in [OF q r, of 1200] by (simp add: scenario_c_def prod_eq_iff)
qed

text \<open>
  C2. A speech-started event sends something only if \<open>markQueue\<close> is non-empty and
  \<open>responseStartTimestampTwilio\<close> is set. When the queue is empty or the timestamp is
  null (or \<open>undefined\<close>), the event changes no variable and sends nothing, and so does
  any number of such events in a row.
\<close>

theorem speech_started_noop:
  "(markQueue s = [] \<or> \<not> not_null (responseStartTimestampTwilio s) \<longrightarrow>
      step s (OpenAiMessage SpeechStarted) = (s, []))
   \<and> (snd (step s (OpenAiMessage SpeechStarted)) \<noteq> [] \<longrightarrow>
        markQueue s \<noteq> [] \<and> not_null (responseStartTimestampTwilio s))
   \<and> (markQueue s = [] \<or> \<not> not_null (responseStartTimestampTwilio s) \<longrightarrow>
        exec s (replicate n (OpenAiMessage SpeechStarted)) = s
        \<and> sent s (replicate n (OpenAiMessage SpeechStarted)) = [])"
proof -
  have one: "step s (OpenAiMessage SpeechStarted) = (s, [])"
    if "markQueue s = [] \<or> \<not> not_null (responseStartTimestampTwilio s)"
    using that by (auto simp: truncate_on_speech_def split: js_time.splits)
  have many: "exec s (replicate n (OpenAiMessage SpeechStarted)) = s
      \<and> sent s (replicate n (OpenAiMessage SpeechStarted)) = []"
    if "markQueue s = [] \<or> \<not> not_null (responseStartTimestampTwilio s)"
    using one [OF that] by (induction n) simp_all
  have only: "markQueue s \<noteq> [] \<and> not_null (responseStartTimestampTwilio s)"
    if "snd (step s (OpenAiMessage SpeechStarted)) \<noteq> []"
    using that one by fastforce
  show ?thesis using one many only by blast
qed

theorem speech_started_noop_witness:
  "markQueue initial_session = []
   \<and> \<not> not_null (responseStartTimestampTwilio initial_session)
   \<and> step initial_session (OpenAiMessage SpeechStarted) = (initial_session, [])
   \<and> exec initial_session (replicate 3 (OpenAiMessage SpeechStarted)) = initial_session
   \<and> sent initial_session (replicate 3 (OpenAiMessage SpeechStarted)) = []
   \<and> snd (step scenario_c (OpenAiMessage SpeechStarted)) \<noteq> []
   \<and> markQueue scenario_c \<noteq> [] \<and> not_null (responseStartTimestampTwilio scenario_c)"
  using speech_started_noop [of initial_session 3] speech_started_noop [of scenario_c 0]
  by (simp add: initial_session_def scenario_c_def truncate_on_speech_def)

section \<open>Telephony start and mark events\<close>

text \<open>
  C10. Handling a telephony \<open>start\<close> event writes three variables only: \<open>streamSid\<close>,
  \<open>latestMediaTimestamp\<close> (to 0) and \<open>responseStartTimestampTwilio\<close> (to null). It sends
  nothing, and \<open>markQueue\<close> and \<open>lastAssistantItem\<close> keep their values: a second \<open>start\<close>
  in the middle of a call (here after one relayed delta of item \<open>it1\<close>) leaves the queued
  mark and the item id in place next to the cleared timing state.
\<close>

theorem start_frame_effect:
  "step s (ConnectionMessage rs (Start sid)) =
     (s\<lparr>streamSid := Some sid, latestMediaTimestamp := Millis 0,
        responseStartTimestampTwilio := Null\<rparr>, [])
   \<and> markQueue (fst (step s (ConnectionMessage rs (Start sid)))) = markQueue s
   \<and> lastAssistantItem (fst (step s (ConnectionMessage rs (Start sid)))) = lastAssistantItem s
   \<and> exec initial_session
        [ConnectionMessage OPEN (Start ''SS1''),
         ConnectionMessage OPEN (Media (Millis 500) ''AAAA''),
         OpenAiMessage (AudioDelta (Some ''BBBB'') (Some ''it1'')),
         ConnectionMessage OPEN (Start ''SS2'')]
      = \<lparr>streamSid = Some ''SS2'', latestMediaTimestamp = Millis 0,
         lastAssistantItem = Some ''it1'', markQueue = [''responsePart''],
         responseStartTimestampTwilio = Null\<rparr>"
  by (simp add: initial_session_def relay_delta_def)

lemma marks_exec:
  "\<forall>e\<in>set es. is_mark e \<Longrightarrow>
     exec s es = s\<lparr>markQueue := drop (length es) (markQueue s)\<rparr> \<and> sent s es = []"
proof (induction es arbitrary: s)
  case Nil
  then show ?case by simp
next
  case (Cons e es)
  from Cons.prems obtain rs where e: "e = ConnectionMessage rs Mark"
    by (cases e rule: is_mark.cases) auto
  from Cons.prems have rest: "\<forall>e\<in>set es. is_mark e" by simp
  show ?case
    using Cons.IH [OF rest, of "fst (step s e)"]
    by (cases "markQueue s") (simp_all add: e drop_Suc)
qed

text \<open>
  C9. A telephony \<open>mark\<close> removes exactly one entry (the oldest) from a non-empty
  \<open>markQueue\<close>; on an empty queue it changes nothing. Neither case sends anything or
  leaves the callback by an exception. After any sequence of \<open>mark\<close> events the queue is
  the old one without its first \<open>length es\<close> entries, which is the empty queue once the
  events outnumber the entries.
\<close>

theorem mark_pops_one:
  "(markQueue s \<noteq> [] \<longrightarrow>
      step s (ConnectionMessage rs Mark) = (s\<lparr>markQueue := tl (markQueue s)\<rparr>, [])
      \<and> Suc (length (markQueue (fst (step s (ConnectionMessage rs Mark))))) = length (markQueue s))
   \<and> (markQueue s = [] \<longrightarrow> step s (ConnectionMessage rs Mark) = (s, []))
   \<and> ((\<forall>e\<in>set es. is_mark e) \<longrightarrow>
        exec s es = s\<lparr>markQueue := drop (length es) (markQueue s)\<rparr> \<and> sent s es = [])"
  using marks_exec [of es s] by (cases "markQueue s") simp_all

text \<open>
  Scenario D: one queued mark, then two acknowledgments; the second finds the queue
  empty and leaves it empty.
\<close>

theorem mark_pops_one_witness:
  "markQueue (initial_session\<lparr>markQueue := [''responsePart'']\<rparr>) \<noteq> []
   \<and> step (initial_session\<lparr>markQueue := [''responsePart'']\<rparr>) (ConnectionMessage OPEN Mark)
       = (initial_session, [])
   \<and> markQueue initial_session = []
   \<and> step initial_session (ConnectionMessage OPEN Mark) = (initial_session, [])
   \<and> is_mark (ConnectionMessage OPEN Mark)
   \<and> exec (initial_session\<lparr>markQueue := [''responsePart'']\<rparr>)
        [ConnectionMessage OPEN Mark, ConnectionMessage OPEN Mark] = initial_session"
  using mark_pops_one [of "initial_session\<lparr>markQueue := [''responsePart'']\<rparr>" OPEN
      "[ConnectionMessage OPEN Mark, ConnectionMessage OPEN Mark]"]
    mark_pops_one [of initial_session OPEN "[]"]
  by (simp add: initial_session_def)

section \<open>The session clock\<close>

lemma clock_trace_media:
  "clock_trace s (map media_event ms) = map (\<lambda>m. Millis (fst (snd m))) ms"
  by (induction ms arbitrary: s) auto

lemma js_le_millis: "sorted_wrt js_le (map Millis ts) = sorted ts"
  by (induction ts) (auto simp: js_le_def)

text \<open>
  C5. After each telephony \<open>media\<close> event \<open>latestMediaTimestamp\<close> is that event's
  timestamp (also when the frame has none): over a sequence of media events with integer
  timestamps it takes exactly the received timestamps, in order, and ends at the last
  one. It is therefore non-decreasing across the sequence exactly when the received
  timestamps are; the handler compares nothing.
\<close>

theorem clock_follows_media:
  "clock_trace s (map media_event ms) = map (\<lambda>m. Millis (fst (snd m))) ms
   \<and> latestMediaTimestamp (exec s (map media_event ms @ [media_event (rs, timestamp, payload)]))
       = Millis timestamp
   \<and> sorted_wrt js_le (clock_trace s (map media_event ms)) = sorted (map (\<lambda>m. fst (snd m)) ms)
   \<and> latestMediaTimestamp (fst (step s (ConnectionMessage rs (Media t payload)))) = t"
proof -
  have "sorted_wrt js_le (map Millis (map (\<lambda>m. fst (snd m)) ms))
      = sorted (map (\<lambda>m. fst (snd m)) ms)"
    by (rule js_le_millis)
  then show ?thesis
    by (simp add: clock_trace_media exec_append comp_def)
qed

text \<open>
  Two media frames with timestamps 100 and 50, in this order: the clock goes from 100
  back to 50, so it is not non-decreasing for every sequence of media events.
\<close>

theorem clock_decreases_counterexample:
  "latestMediaTimestamp (exec initial_session [media_event (OPEN, 100, ''AAAA'')]) = Millis 100
   \<and> latestMediaTimestamp (exec initial_session
        [media_event (OPEN, 100, ''AAAA''), media_event (OPEN, 50, ''BBBB'')]) = Millis 50
   \<and> clock_trace initial_session
        [media_event (OPEN, 100, ''AAAA''), media_event (OPEN, 50, ''BBBB'')]
       = [Millis 100, Millis 50]
   \<and> \<not> sorted_wrt js_le (clock_trace initial_session
        [media_event (OPEN, 100, ''AAAA''), media_event (OPEN, 50, ''BBBB'')])"
  by (simp add: initial_session_def js_le_def)

section \<open>Relaying speech deltas\<close>

text \<open>
  C3. A \<open>response.audio.delta\<close> with a non-empty \<open>delta\<close> always sends one \<open>media\<close>
  frame with that payload on the telephony leg. When \<open>streamSid\<close> is set (a non-empty
  string) it then sends one \<open>mark\<close> frame named \<open>responsePart\<close> and appends one entry to
  \<open>markQueue\<close>; these two frames are all it sends. When \<open>streamSid\<close> is not set, the test
  of line 179 skips the mark: the media frame is all it sends and \<open>markQueue\<close> is
  unchanged.
\<close>

theorem delta_media_then_mark:
  assumes "payload \<noteq> []"
  shows "(truthy_str (streamSid s) \<longrightarrow>
            snd (step s (OpenAiMessage (AudioDelta (Some payload) item_id))) =
              [ConnectionSend (MediaFrame (streamSid s) payload),
               ConnectionSend (MarkFrame (streamSid s) ''responsePart'')]
            \<and> markQueue (fst (step s (OpenAiMessage (AudioDelta (Some payload) item_id)))) =
                markQueue s @ [''responsePart''])
       \<and> (\<not> truthy_str (streamSid s) \<longrightarrow>
            snd (step s (OpenAiMessage (AudioDelta (Some payload) item_id))) =
              [ConnectionSend (MediaFrame (streamSid s) payload)]
            \<and> markQueue (fst (step s (OpenAiMessage (AudioDelta (Some payload) item_id)))) =
                markQueue s)"
  using assms by (simp add: relay_delta_def Let_def)

theorem delta_media_then_mark_witness:
  "''AAAA'' \<noteq> [] \<and> truthy_str (streamSid scenario_c)
   \<and> snd (step scenario_c (OpenAiMessage (AudioDelta (Some ''AAAA'') (Some ''it1'')))) =
       [ConnectionSend (MediaFrame (Some ''SS1'') ''AAAA''),
        ConnectionSend (MarkFrame (Some ''SS1'') ''responsePart'')]
   \<and> markQueue (fst (step scenario_c (OpenAiMessage (AudioDelta (Some ''AAAA'') (Some ''it1''))))) =
       [''responsePart'', ''responsePart'']
   \<and> \<not> truthy_str (streamSid initial_session)
   \<and> snd (step initial_session (OpenAiMessage (AudioDelta (Some ''AAAA'') (Some ''it1'')))) =
       [ConnectionSend (MediaFrame None ''AAAA'')]"
proof -
  have p: "''AAAA'' \<noteq> []" by simp
  show ?thesis
    using delta_media_then_mark [OF p, of scenario_c "Some ''it1''"]
      delta_media_then_mark [OF p, of initial_session "Some ''it1''"]
    by (simp add: scenario_c_def initial_session_def)
qed

text \<open>
  A delta that arrives before any telephony \<open>start\<close>: one media frame, no mark frame,
  nothing queued.
\<close>

theorem delta_without_stream_counterexample:
  "step initial_session (OpenAiMessage (AudioDelta (Some ''AAAA'') (Some ''it1''))) =
     (initial_session\<lparr>lastAssistantItem := Some ''it1'',
        responseStartTimestampTwilio := Millis 0\<rparr>,
      [ConnectionSend (MediaFrame None ''AAAA'')])
   \<and> markQueue (fst (step initial_session
        (OpenAiMessage (AudioDelta (Some ''AAAA'') (Some ''it1''))))) = []"
  by (simp add: initial_session_def relay_delta_def)

text \<open>
  C4. The first delta of a speech turn stores the clock in
  \<open>responseStartTimestampTwilio\<close>, and later deltas of the turn are meant to leave it
  alone. The test of line 168 is \<open>!responseStartTimestampTwilio\<close>, which is also true of
  the number 0: a turn that starts at clock 0 has its start timestamp overwritten by the
  next delta. Here the stream starts, a delta of item \<open>it1\<close> stores 0, a media frame moves
  the clock to 20, and the second delta of the same item stores 20.
\<close>

theorem zero_start_recaptured:
  "responseStartTimestampTwilio (exec initial_session
      [ConnectionMessage OPEN (Start ''SS1''),
       OpenAiMessage (AudioDelta (Some ''AAAA'') (Some ''it1''))]) = Millis 0
   \<and> responseStartTimestampTwilio (exec initial_session
      [ConnectionMessage OPEN (Start ''SS1''),
       OpenAiMessage (AudioDelta (Some ''AAAA'') (Some ''it1'')),
       ConnectionMessage OPEN (Media (Millis 20) ''CCCC''),
       OpenAiMessage (AudioDelta (Some ''BBBB'') (Some ''it1''))]) = Millis 20"
  by (simp add: initial_session_def relay_delta_def)

text \<open>
  What the delta branch does keep of the start timestamp: a null one becomes the clock,
  a non-zero one stays, and scenario B of the specification ends as described.
\<close>

lemma first_delta_captures_clock:
  "payload \<noteq> [] \<Longrightarrow> \<not> not_null (responseStartTimestampTwilio s) \<Longrightarrow>
     responseStartTimestampTwilio (fst (step s (OpenAiMessage (AudioDelta (Some payload) item_id))))
       = latestMediaTimestamp s"
  by (cases "responseStartTimestampTwilio s") (simp_all add: relay_delta_def Let_def)

lemma later_delta_keeps_nonzero_start:
  "responseStartTimestampTwilio s = Millis t \<Longrightarrow> t \<noteq> 0 \<Longrightarrow>
     responseStartTimestampTwilio (fst (step s (OpenAiMessage (AudioDelta delta item_id))))
       = Millis t"
  by (simp add: relay_delta_def Let_def split: option.splits)

lemma scenario_b:
  "exec initial_session
     [ConnectionMessage OPEN (Start ''SS1''),
      ConnectionMessage OPEN (Media (Millis 500) ''CCCC''),
      OpenAiMessage (AudioDelta (Some ''AAAA'') (Some ''it1''))]
   = \<lparr>streamSid = Some ''SS1'', latestMediaTimestamp = Millis 500,
      lastAssistantItem = Some ''it1'', markQueue = [''responsePart''],
      responseStartTimestampTwilio = Millis 500\<rparr>"
  by (simp add: initial_session_def relay_delta_def)

section \<open>Invariants over runs\<close>

subsection \<open>Start timestamp and assistant item\<close>

lemma paired_after_start:
  "paired (fst (step s (ConnectionMessage rs (Start sid)))) = (lastAssistantItem s = None)"
  by (simp add: paired_def)

lemma paired_after_delta:
  assumes "paired s"
  shows "paired (fst (step s (OpenAiMessage (AudioDelta delta item_id))))
       = (\<not> separates s (OpenAiMessage (AudioDelta delta item_id)))"
proof (cases "truthy_str delta")
  case False
  with assms show ?thesis
    by (cases delta) (simp_all add: relay_delta_def)
next
  case True
  then obtain payload where d: "delta = Some payload" "payload \<noteq> []"
    by (cases delta) simp_all
  show ?thesis
  proof (cases "truthy_num (responseStartTimestampTwilio s)")
    case True
    then have "not_null (responseStartTimestampTwilio s)"
      by (cases "responseStartTimestampTwilio s") simp_all
    with assms True d show ?thesis
      by (cases item_id) (auto simp: paired_def relay_delta_def Let_def)
  next
    case False
    with d show ?thesis
      by (cases item_id) (auto simp: paired_def relay_delta_def Let_def)
  qed
qed

lemma paired_after_speech:
  "paired s \<Longrightarrow> paired (fst (step s (OpenAiMessage SpeechStarted)))"
  by (auto simp: paired_def truncate_on_speech_def Let_def split: js_time.splits)

lemma paired_step:
  assumes "paired s"
  shows "paired (fst (step s e)) = (\<not> separates s e)"
proof (cases e)
  case (ConnectionMessage rs m)
  with assms show ?thesis
    by (cases m) (simp_all add: paired_def)
next
  case (OpenAiMessage m)
  show ?thesis
  proof (cases m)
    case (AudioDelta delta item_id)
    with OpenAiMessage paired_after_delta [OF assms] show ?thesis by simp
  next
    case SpeechStarted
    with OpenAiMessage paired_after_speech [OF assms] show ?thesis by simp
  qed (use assms OpenAiMessage in simp_all)
qed (use assms in simp_all)

lemma paired_exec:
  "paired s \<Longrightarrow> unseparated s es \<Longrightarrow> paired (exec s es)"
  by (induction es arbitrary: s) (simp_all add: paired_step)

text \<open>
  C6. \<open>responseStartTimestampTwilio\<close> is non-null if and only if \<open>lastAssistantItem\<close> is
  non-null in the initial session. From a session where the equivalence holds, an event
  keeps it unless it is a telephony \<open>start\<close> arriving while an assistant item is recorded,
  or a delta with audio that stores the clock as start timestamp (the old one being
  null, \<open>undefined\<close> or 0) where the clock is set and no item id is recorded or carried
  by the delta, or the clock is not set (a media frame had no timestamp) and an item id
  is recorded or carried; these events break it. So the equivalence holds after every
  run in which no such event occurs.
\<close>

theorem pairing_kept:
  "paired initial_session
   \<and> (paired s \<longrightarrow> paired (fst (step s e)) = (\<not> separates s e))
   \<and> (paired s \<longrightarrow> unseparated s es \<longrightarrow> paired (exec s es))"
  using paired_step [of s e] paired_exec [of s es]
  by (simp add: paired_def initial_session_def)

text \<open>
  Scenarios A to C in one run, none of whose events separates the variables; and in the
  session of scenario C a \<open>start\<close>, which does, next to a delta without item id, which
  there does not.
\<close>

theorem pairing_kept_witness:
  "paired initial_session
   \<and> unseparated initial_session
        [ConnectionMessage OPEN (Start ''SS1''),
         ConnectionMessage OPEN (Media (Millis 500) ''CCCC''),
         OpenAiMessage (AudioDelta (Some ''AAAA'') (Some ''it1'')),
         ConnectionMessage OPEN (Media (Millis 1200) ''DDDD''),
         OpenAiMessage SpeechStarted]
   \<and> exec initial_session
        [ConnectionMessage OPEN (Start ''SS1''),
         ConnectionMessage OPEN (Media (Millis 500) ''CCCC''),
         OpenAiMessage (AudioDelta (Some ''AAAA'') (Some ''it1''))]
      = scenario_c\<lparr>latestMediaTimestamp := Millis 500\<rparr>
   \<and> paired (exec initial_session
        [ConnectionMessage OPEN (Start ''SS1''),
         ConnectionMessage OPEN (Media (Millis 500) ''CCCC''),
         OpenAiMessage (AudioDelta (Some ''AAAA'') (Some ''it1'')),
         ConnectionMessage OPEN (Media (Millis 1200) ''DDDD''),
         OpenAiMessage SpeechStarted])
   \<and> paired scenario_c
   \<and> separates scenario_c (ConnectionMessage OPEN (Start ''SS1''))
   \<and> \<not> paired (fst (step scenario_c (ConnectionMessage OPEN (Start ''SS1''))))
   \<and> \<not> separates scenario_c (OpenAiMessage (AudioDelta (Some ''BBBB'') None))
   \<and> paired (fst (step scenario_c (OpenAiMessage (AudioDelta (Some ''BBBB'') None))))"
  using pairing_kept [of initial_session "ConnectionMessage OPEN (Start ''SS1'')"
      "[ConnectionMessage OPEN (Start ''SS1''),
        ConnectionMessage OPEN (Media (Millis 500) ''CCCC''),
        OpenAiMessage (AudioDelta (Some ''AAAA'') (Some ''it1'')),
        ConnectionMessage OPEN (Media (Millis 1200) ''DDDD''),
        OpenAiMessage SpeechStarted]"]
    pairing_kept [of scenario_c "ConnectionMessage OPEN (Start ''SS1'')" "[]"]
    pairing_kept [of scenario_c "OpenAiMessage (AudioDelta (Some ''BBBB'') None)" "[]"]
  by (simp add: initial_session_def scenario_c_def relay_delta_def truncate_on_speech_def
      paired_def)

text \<open>
  Runs from the initial session that separate the variables. A second \<open>start\<close> after a
  relayed delta clears the timestamp and keeps the item id; a delta with audio and no
  \<open>item_id\<close> sets the timestamp and no item id; after a media frame whose timestamp is
  \<open>null\<close> or missing, a delta with an item id stores that clock and sets the item id.
\<close>

theorem pairing_broken_counterexample:
  "responseStartTimestampTwilio (exec initial_session
      [ConnectionMessage OPEN (Start ''SS1''),
       OpenAiMessage (AudioDelta (Some ''AAAA'') (Some ''it1'')),
       ConnectionMessage OPEN (Start ''SS1'')]) = Null
   \<and> lastAssistantItem (exec initial_session
      [ConnectionMessage OPEN (Start ''SS1''),
       OpenAiMessage (AudioDelta (Some ''AAAA'') (Some ''it1'')),
       ConnectionMessage OPEN (Start ''SS1'')]) = Some ''it1''
   \<and> responseStartTimestampTwilio (exec initial_session
      [OpenAiMessage (AudioDelta (Some ''AAAA'') None)]) = Millis 0
   \<and> lastAssistantItem (exec initial_session
      [OpenAiMessage (AudioDelta (Some ''AAAA'') None)]) = None
   \<and> responseStartTimestampTwilio (exec initial_session
      [ConnectionMessage OPEN (Start ''SS1''),
       ConnectionMessage OPEN (Media Null ''CCCC''),
       OpenAiMessage (AudioDelta (Some ''AAAA'') (Some ''it1''))]) = Null
   \<and> lastAssistantItem (exec initial_session
      [ConnectionMessage OPEN (Start ''SS1''),
       ConnectionMessage OPEN (Media Null ''CCCC''),
       OpenAiMessage (AudioDelta (Some ''AAAA'') (Some ''it1''))]) = Some ''it1''
   \<and> responseStartTimestampTwilio (exec initial_session
      [ConnectionMessage OPEN (Start ''SS1''),
       ConnectionMessage OPEN (Media Undefined ''CCCC''),
       OpenAiMessage (AudioDelta (Some ''AAAA'') (Some ''it1''))]) = Undefined
   \<and> \<not> paired (exec initial_session
      [ConnectionMessage OPEN (Start ''SS1''),
       ConnectionMessage OPEN (Media Undefined ''CCCC''),
       OpenAiMessage (AudioDelta (Some ''AAAA'') (Some ''it1''))])"
  by (simp add: initial_session_def relay_delta_def paired_def)

subsection \<open>The stream identifier on outbound telephony frames\<close>

lemma step_frames_carry_sid:
  "f \<in> set (telephony_frames (snd (step s e))) \<Longrightarrow> frame_sid f = streamSid s"
proof (cases e)
  case (ConnectionMessage rs m)
  assume "f \<in> set (telephony_frames (snd (step s e)))"
  with ConnectionMessage show ?thesis
    by (cases m) (simp_all split: if_splits)
next
  case (OpenAiMessage m)
  assume f: "f \<in> set (telephony_frames (snd (step s e)))"
  show ?thesis
  proof (cases m)
    case (AudioDelta delta item_id)
    with f OpenAiMessage show ?thesis
      by (auto simp: relay_delta_def Let_def split: option.splits if_splits)
  next
    case SpeechStarted
    with f OpenAiMessage show ?thesis
      by (auto simp: truncate_on_speech_def Let_def split: option.splits js_time.splits if_splits)
  qed (use f OpenAiMessage in simp_all)
next
  case (ConnectionClosed rs)
  assume "f \<in> set (telephony_frames (snd (step s e)))"
  with ConnectionClosed show ?thesis
    by (simp add: connection_on_close_def split: if_splits)
next
  case OpenAiClosed
  assume "f \<in> set (telephony_frames (snd (step s e)))"
  with OpenAiClosed show ?thesis by (simp add: openAiWs_on_close_def)
next
  case OpenAiError
  assume "f \<in> set (telephony_frames (snd (step s e)))"
  with OpenAiError show ?thesis by (simp add: openAiWs_on_error_def)
qed

lemma step_keeps_sid:
  "\<not> is_start e \<Longrightarrow> streamSid (fst (step s e)) = streamSid s"
proof (cases e)
  case (ConnectionMessage rs m)
  assume "\<not> is_start e"
  with ConnectionMessage show ?thesis by (cases m) simp_all
next
  case (OpenAiMessage m)
  then show ?thesis
    by (cases m)
       (simp_all add: relay_delta_def truncate_on_speech_def Let_def
         split: option.splits js_time.splits)
qed simp_all

lemma sent_frames_carry_sid:
  "\<forall>e\<in>set es. \<not> is_start e \<Longrightarrow>
     \<forall>f\<in>set (telephony_frames (sent s es)). frame_sid f = streamSid s"
proof (induction es arbitrary: s)
  case Nil
  then show ?case by simp
next
  case (Cons e es)
  then have here: "\<not> is_start e" and rest: "\<forall>e\<in>set es. \<not> is_start e"
    by simp_all
  have "\<forall>f\<in>set (telephony_frames (sent (fst (step s e)) es)).
          frame_sid f = streamSid (fst (step s e))"
    by (rule Cons.IH [OF rest])
  then show ?case
    using step_frames_carry_sid [of _ s e] step_keeps_sid [OF here, of s]
    by (auto simp: telephony_frames_append)
qed

text \<open>
  C7. After a telephony \<open>start\<close> event with stream id \<open>sid\<close> the session's \<open>streamSid\<close> is
  \<open>sid\<close>, and every telephony frame (media, mark, clear) sent from then on carries \<open>sid\<close>
  for as long as no further \<open>start\<close> event arrives. In general every telephony frame
  sent while handling an event carries the value \<open>streamSid\<close> has at that moment, which
  is null before the first \<open>start\<close>.
\<close>

theorem frames_carry_stream_id:
  "streamSid (fst (step s (ConnectionMessage rs (Start sid)))) = Some sid
   \<and> (\<forall>f\<in>set (telephony_frames (snd (step s e))). frame_sid f = streamSid s)
   \<and> ((\<forall>e\<in>set es. \<not> is_start e) \<longrightarrow>
        (\<forall>f\<in>set (telephony_frames (sent (fst (step s (ConnectionMessage rs (Start sid)))) es)).
            frame_sid f = Some sid))"
  using sent_frames_carry_sid [of es "fst (step s (ConnectionMessage rs (Start sid)))"]
    step_frames_carry_sid [of _ s e]
  by simp

text \<open>Scenario A followed by a media frame, a delta and a barge-in.\<close>

theorem frames_carry_stream_id_witness:
  "\<not> is_start (ConnectionMessage OPEN (Media (Millis 500) ''CCCC''))
   \<and> \<not> is_start (OpenAiMessage (AudioDelta (Some ''AAAA'') (Some ''it1'')))
   \<and> \<not> is_start (OpenAiMessage SpeechStarted)
   \<and> streamSid (fst (step initial_session (ConnectionMessage OPEN (Start ''SS1'')))) = Some ''SS1''
   \<and> telephony_frames (sent (fst (step initial_session (ConnectionMessage OPEN (Start ''SS1''))))
        [ConnectionMessage OPEN (Media (Millis 500) ''CCCC''),
         OpenAiMessage (AudioDelta (Some ''AAAA'') (Some ''it1'')),
         OpenAiMessage SpeechStarted])
      = [MediaFrame (Some ''SS1'') ''AAAA'', MarkFrame (Some ''SS1'') ''responsePart'',
         ClearFrame (Some ''SS1'')]
   \<and> frame_sid (MediaFrame (Some ''SS1'') ''AAAA'') = Some ''SS1''
   \<and> frame_sid (MarkFrame (Some ''SS1'') ''responsePart'') = Some ''SS1''
   \<and> frame_sid (ClearFrame (Some ''SS1'')) = Some ''SS1''
   \<and> telephony_frames (snd (step initial_session
        (OpenAiMessage (AudioDelta (Some ''AAAA'') (Some ''it1''))))) = [MediaFrame None ''AAAA'']
   \<and> frame_sid (MediaFrame None ''AAAA'') = streamSid initial_session"
  using frames_carry_stream_id [of initial_session OPEN "''SS1''"
      "OpenAiMessage (AudioDelta (Some ''AAAA'') (Some ''it1''))"
      "[ConnectionMessage OPEN (Media (Millis 500) ''CCCC''),
        OpenAiMessage (AudioDelta (Some ''AAAA'') (Some ''it1'')),
        OpenAiMessage SpeechStarted]"]
  by (simp add: initial_session_def relay_delta_def truncate_on_speech_def)

text \<open>
  A second \<open>start\<close> with another id replaces \<open>streamSid\<close>: the frames sent after the
  \<open>start\<close> of \<open>SS1\<close> carry \<open>SS2\<close>.
\<close>

theorem second_start_counterexample:
  "telephony_frames (sent initial_session
      [ConnectionMessage OPEN (Start ''SS1''),
       ConnectionMessage OPEN (Start ''SS2''),
       OpenAiMessage (AudioDelta (Some ''AAAA'') (Some ''it1''))])
   = [MediaFrame (Some ''SS2'') ''AAAA'', MarkFrame (Some ''SS2'') ''responsePart'']"
  by (simp add: initial_session_def relay_delta_def)

section \<open>Closing the legs\<close>

text \<open>
  What the close callback of the telephony connection does: it closes the speech-AI
  socket if that socket's \<open>readyState\<close> is \<open>OPEN\<close>, and does nothing to it in any other
  state. A telephony message is forwarded to the speech-AI leg only while that socket is
  \<open>OPEN\<close>, and a media frame then yields exactly one \<open>input_audio_buffer.append\<close> with
  its payload.
\<close>

lemma telephony_close_closes_open_ai_leg:
  "step s (ConnectionClosed OPEN) = (s, [OpenAiWsClose])
   \<and> (rs \<noteq> OPEN \<longrightarrow> step s (ConnectionClosed rs) = (s, []))
   \<and> (openai_frames (snd (step s (ConnectionMessage rs m))) \<noteq> [] \<longrightarrow> rs = OPEN)
   \<and> openai_frames (snd (step s (ConnectionMessage OPEN (Media timestamp payload))))
       = [AudioAppend payload]"
  by (cases m) (simp_all add: connection_on_close_def)

text \<open>
  C8. Closing or failing of either leg is meant to close the other, and nothing is meant
  to be sent on a leg that has closed. The close callback of the telephony connection
  does close the speech-AI socket (lines 252-255), but the close and error callbacks of
  the speech-AI socket (lines 257-263) only log: in every session they perform no socket
  operation, so the telephony connection is left open. And after the telephony
  connection has closed, a delta that still arrives on the closing speech-AI socket is
  sent on the telephony leg all the same: the relay of lines 166 and 180 does not look
  at the state of \<open>connection\<close>. A telephony close that finds the speech-AI socket still
  \<open>CONNECTING\<close> does not close it either.
\<close>

theorem closed_leg_leaves_other_open:
  "step s OpenAiClosed = (s, [])
   \<and> step s OpenAiError = (s, [])
   \<and> ConnectionClose \<notin> set (snd (step s OpenAiClosed))
   \<and> ConnectionClose \<notin> set (snd (step s OpenAiError))
   \<and> sent initial_session
        [ConnectionMessage OPEN (Start ''SS1''),
         ConnectionClosed OPEN,
         OpenAiMessage (AudioDelta (Some ''AAAA'') (Some ''it1''))]
      = [OpenAiWsClose,
         ConnectionSend (MediaFrame (Some ''SS1'') ''AAAA''),
         ConnectionSend (MarkFrame (Some ''SS1'') ''responsePart'')]
   \<and> OpenAiWsClose \<notin> set (snd (step s (ConnectionClosed CONNECTING)))"
  by (simp add: openAiWs_on_close_def openAiWs_on_error_def connection_on_close_def
      initial_session_def relay_delta_def)

end
